theory Spec2Isabelle
  imports Main
begin

section \<open>Data model (src/types/url.ts, src/types/auth.ts)\<close>

text \<open>
  The TypeScript interfaces become records. A JavaScript \<open>number\<close> that holds an
  identifier, a counter or a millisecond clock is modelled as \<open>int\<close>; an optional
  field (\<open>f?: T\<close>) as \<open>T option\<close>, with \<open>None\<close> for \<open>undefined\<close>. The field
  \<open>id\<close> is written \<open>id_url\<close>/\<open>id_user\<close>, since \<open>id\<close> is the identity function of HOL.
\<close>

record User =
  id_user :: int
  username :: string
  email :: string
  createdAt_user :: string
  updatedAt_user :: string

record ShortUrl =
  id_url :: int
  longUrl :: string
  shortCode :: string
  expirationDate :: "string option"
  clicksTotal :: int
  user :: User
  createdAt :: string
  updatedAt :: string
  isExpired :: "bool option"

text \<open>\<open>ApiError\<close> of the request gateway: a message and an HTTP status.\<close>

record ApiError =
  message :: string
  status :: int

text \<open>
  The payload of a pushed socket event is typed \<open>any\<close> in the source; the handlers read
  three fields of it (\<open>data.shortUrlId\<close>, \<open>data.newClickCount\<close>, \<open>data.shortUrl\<close>),
  each of which may be absent.
\<close>

record SocketData =
  data_shortUrlId :: "int option"
  data_newClickCount :: "int option"
  data_shortUrl :: "ShortUrl option"

section \<open>The record collection of the hook useUrls (src/hooks/useUrls.ts)\<close>

text \<open>
  The hook keeps the collection in React state (\<open>urls\<close>); every mutation is a call
  \<open>setUrls(prev => ...)\<close> with a pure updater. Notifications (\<open>toast.*\<close>) are the only
  other effect of the operations modelled here; they are appended to a log.
\<close>

datatype toast =
  ToastSuccess string
  | ToastError string
  | ToastInfoNewClick string int
    \<comment> \<open>\<open>toast.info(`Nuovo click su "${shortCode}"! Total: ${newClickCount}`)\<close>\<close>

record hook_state =
  urls :: "ShortUrl list"
  toasts :: "toast list"

text \<open>JavaScript truthiness of a possibly absent number: absent and \<open>0\<close> are falsy.\<close>

definition truthy_num :: "int option \<Rightarrow> bool" where
  "truthy_num v = (case v of None \<Rightarrow> False | Some n \<Rightarrow> n \<noteq> 0)"

text \<open>\<open>err.message || fallback\<close>: the empty string is falsy.\<close>

definition message_or :: "ApiError \<Rightarrow> string \<Rightarrow> string" where
  "message_or err fallback = (if message err = [] then fallback else message err)"

text \<open>
  \<open>updateUrlClicks(urlId, newClickCount)\<close>: the updater
  \<open>prev.map(url => url.id === urlId ? { ...url, clicksTotal: newClickCount } : url)\<close>.
\<close>

definition updateUrlClicks :: "int \<Rightarrow> int \<Rightarrow> ShortUrl list \<Rightarrow> ShortUrl list" where
  "updateUrlClicks urlId newClickCount prev =
     map (\<lambda>url. if id_url url = urlId then url\<lparr>clicksTotal := newClickCount\<rparr> else url) prev"

text \<open>
  \<open>createUrl\<close>: awaits the gateway; on success prepends the returned record, reports
  success and returns the record; on failure reports the error and rethrows it. The
  outcome of the awaited gateway call is the first argument.
\<close>

definition createUrl :: "ApiError + ShortUrl \<Rightarrow> hook_state \<Rightarrow> (ApiError + ShortUrl) \<times> hook_state" where
  "createUrl response st =
     (case response of
        Inr newUrl \<Rightarrow>
          (Inr newUrl,
           st\<lparr>urls := newUrl # urls st,
              toasts := toasts st @ [ToastSuccess ''URL abbreviato creato con successo!'']\<rparr>)
      | Inl err \<Rightarrow>
          (Inl err,
           st\<lparr>toasts := toasts st @ [ToastError (message_or err ''Errore nella creazione dell'URL'')]\<rparr>))"

text \<open>
  \<open>deleteUrl(id)\<close>: awaits \<open>apiClient.deleteShortUrl(id)\<close>; only when that resolves it
  filters the record out and reports success; when it rejects, the \<open>catch\<close> branch reports
  the error and rethrows it.
\<close>

definition deleteUrl :: "ApiError + unit \<Rightarrow> int \<Rightarrow> hook_state \<Rightarrow> (ApiError + unit) \<times> hook_state" where
  "deleteUrl response i st =
     (case response of
        Inr _ \<Rightarrow>
          (Inr (),
           st\<lparr>urls := filter (\<lambda>url. id_url url \<noteq> i) (urls st),
              toasts := toasts st @ [ToastSuccess ''URL eliminato con successo!'']\<rparr>)
      | Inl err \<Rightarrow>
          (Inl err,
           st\<lparr>toasts := toasts st @ [ToastError (message_or err ''Errore nell'eliminazione dell'URL'')]\<rparr>))"

text \<open>
  The three socket handlers registered by the hook. Each guards on the payload before it
  touches the collection: \<open>if (data.shortUrlId && data.newClickCount !== undefined)\<close>,
  \<open>if (data.shortUrl)\<close>, \<open>if (data.shortUrlId)\<close>.

  The click handler updates the collection through \<open>setUrls(prev => ...)\<close>, that is, on
  the current state, but looks the record up for its notification in the variable \<open>urls\<close>
  of its closure: the collection as it was at the render that registered the handler.
  That list is the argument \<open>captured\<close>.
\<close>

definition onClickUpdate :: "ShortUrl list \<Rightarrow> SocketData \<Rightarrow> hook_state \<Rightarrow> hook_state" where
  "onClickUpdate captured data st =
     (case (data_shortUrlId data, data_newClickCount data) of
        (Some i, Some n) \<Rightarrow>
          (if truthy_num (data_shortUrlId data)
           then st\<lparr>urls := updateUrlClicks i n (urls st),
                   toasts := (case find (\<lambda>u. id_url u = i) captured of
                                Some url \<Rightarrow> toasts st @ [ToastInfoNewClick (shortCode url) n]
                              | None \<Rightarrow> toasts st)\<rparr>
           else st)
      | _ \<Rightarrow> st)"

definition onUrlCreated :: "SocketData \<Rightarrow> hook_state \<Rightarrow> hook_state" where
  "onUrlCreated data st =
     (case data_shortUrl data of
        Some new \<Rightarrow>
          (let prev = urls st;
               exists = list_ex (\<lambda>url. id_url url = id_url new) prev
           in if \<not> exists then st\<lparr>urls := new # prev\<rparr> else st)
      | None \<Rightarrow> st)"

definition onUrlDeleted :: "SocketData \<Rightarrow> hook_state \<Rightarrow> hook_state" where
  "onUrlDeleted data st =
     (case data_shortUrlId data of
        Some i \<Rightarrow>
          (if truthy_num (data_shortUrlId data)
           then st\<lparr>urls := filter (\<lambda>url. id_url url \<noteq> i) (urls st)\<rparr>
           else st)
      | None \<Rightarrow> st)"

text \<open>The push events of the specification, as the payloads the server sends for them.\<close>

definition ClickUpdate :: "int \<Rightarrow> int \<Rightarrow> SocketData" where
  "ClickUpdate i n = \<lparr>data_shortUrlId = Some i, data_newClickCount = Some n, data_shortUrl = None\<rparr>"

definition RecordCreated :: "ShortUrl \<Rightarrow> SocketData" where
  "RecordCreated r = \<lparr>data_shortUrlId = None, data_newClickCount = None, data_shortUrl = Some r\<rparr>"

definition RecordDeleted :: "int \<Rightarrow> SocketData" where
  "RecordDeleted i = \<lparr>data_shortUrlId = Some i, data_newClickCount = None, data_shortUrl = None\<rparr>"

text \<open>How many records of the collection carry a given id.\<close>

definition count_id :: "int \<Rightarrow> ShortUrl list \<Rightarrow> nat" where
  "count_id i xs = length (filter (\<lambda>url. id_url url = i) xs)"

text \<open>A sample record, used for the concrete instances below.\<close>

definition sample_user :: User where
  "sample_user = \<lparr>id_user = 1, username = ''anna'', email = ''anna@example.org'',
     createdAt_user = ''2024-01-01'', updatedAt_user = ''2024-01-01''\<rparr>"

definition sample_url :: "int \<Rightarrow> int \<Rightarrow> ShortUrl" where
  "sample_url i c = \<lparr>id_url = i, longUrl = ''https://example.org'', shortCode = ''abc'',
     expirationDate = None, clicksTotal = c, user = sample_user,
     createdAt = ''2024-01-01'', updatedAt = ''2024-01-01'', isExpired = None\<rparr>"

section \<open>The credential store (src/app/helpers/auth.ts)\<close>

record AuthState =
  auth_user :: "User option"
  token :: "string option"
  isAuthenticated_flag :: bool
  isLoading :: bool

text \<open>
  \<open>token.split('.')\<close>: the pieces between the dots; there is always at least one piece.
\<close>

fun split_dot :: "string \<Rightarrow> string list" where
  "split_dot [] = [[]]"
| "split_dot (c # cs) =
     (if c = CHR ''.'' then [] # split_dot cs
      else (case split_dot cs of
              piece # pieces \<Rightarrow> (c # piece) # pieces
            | [] \<Rightarrow> [[c]]))"

text \<open>
  \<open>token.split('.')[1]\<close> as the argument of \<open>atob\<close>: the second piece, or the text
  \<open>undefined\<close> when there is none (\<open>atob\<close> converts its argument to a string).
\<close>

definition payload_segment :: "string \<Rightarrow> string" where
  "payload_segment t = (case split_dot t of _ # piece # _ \<Rightarrow> piece | _ \<Rightarrow> ''undefined'')"

text \<open>
  \<open>atob\<close>, \<open>JSON.parse\<close> and the numeric reading of \<open>payload.exp\<close> belong to the
  JavaScript runtime. Together they are a parameter of the model: from the text of the
  segment to one of three results. \<open>Raises\<close>: decoding, parsing or the property access
  threw. \<open>NotANumber\<close>: \<open>payload.exp\<close> has no numeric value (it is absent, for example), so
  the product with 1000 is NaN. \<open>Seconds e\<close>: \<open>payload.exp\<close> is the number \<open>e\<close>.
\<close>

datatype exp_reading = Raises | NotANumber | Seconds int

text \<open>
  \<open>isTokenExpired()\<close>, at the clock value \<open>now\<close> (\<open>Date.now()\<close>, in milliseconds). A
  missing or empty token is expired; so is one whose payload cannot be read (the \<open>catch\<close>
  branch); a comparison with NaN is false.
\<close>

definition isTokenExpired :: "(string \<Rightarrow> exp_reading) \<Rightarrow> int \<Rightarrow> AuthState \<Rightarrow> bool" where
  "isTokenExpired read_exp now st =
     (case token st of
        None \<Rightarrow> True
      | Some t \<Rightarrow>
          (if t = [] then True
           else (case read_exp (payload_segment t) of
                   Raises \<Rightarrow> True
                 | NotANumber \<Rightarrow> False
                 | Seconds e \<Rightarrow> now \<ge> e * 1000)))"

definition isAuthenticated :: "(string \<Rightarrow> exp_reading) \<Rightarrow> int \<Rightarrow> AuthState \<Rightarrow> bool" where
  "isAuthenticated read_exp now st =
     (isAuthenticated_flag st \<and> \<not> isTokenExpired read_exp now st)"

text \<open>A state and a runtime for the concrete instances: a token whose payload expires at second 1000.\<close>

definition sample_auth :: AuthState where
  "sample_auth = \<lparr>auth_user = Some sample_user, token = Some ''hdr.pay.sig'',
     isAuthenticated_flag = True, isLoading = False\<rparr>"

definition sample_read_exp :: "string \<Rightarrow> exp_reading" where
  "sample_read_exp seg = (if seg = ''pay'' then Seconds 1000 else Raises)"

section \<open>The push channel manager (class SocketManager)\<close>

text \<open>
  A call either returns or throws; in both cases it leaves a state behind.
\<close>

datatype 'a outcome = Returned 'a | Threw string 'a

fun state_of :: "'a outcome \<Rightarrow> 'a" where
  "state_of (Returned s) = s"
| "state_of (Threw err s) = s"

fun thrown :: "'a outcome \<Rightarrow> string option" where
  "thrown (Returned s) = None"
| "thrown (Threw err s) = Some err"

text \<open>
  The payloads the manager hands to subscribers: \<open>{ connected: true }\<close> and
  \<open>{ connected: false, reason }\<close>, \<open>{ error: message }\<close>, \<open>{}\<close>, and the data of a
  server event passed through.
\<close>

datatype event_data =
  ConnectionData bool "string option"
  | ErrorData string
  | EmptyData
  | PushData SocketData

text \<open>
  A subscriber is a JavaScript function. It is identified by reference (\<open>cb_ref\<close>, which
  is what \<open>Set.add\<close> and \<open>Set.delete\<close> compare) and, when called, acts on the state
  \<open>'w\<close> of the application outside the manager, returning or throwing. Subscribers that
  call back into the manager while an event is being dispatched are not modelled.
\<close>

record 'w callback =
  cb_ref :: nat
  cb_run :: "event_data \<Rightarrow> 'w \<Rightarrow> 'w outcome"

datatype console_msg =
  LogSocketConnected
  | LogSocketDisconnected string
  | ErrorSocketConnection string
  | ErrorMaxReconnect
    \<comment> \<open>\<open>console.error('Max reconnection attempts reached')\<close>\<close>
  | LogReconnectAttempt nat nat
    \<comment> \<open>\<open>console.log(`Attempting to reconnect in ${delay}ms (attempt ${reconnectAttempts})`)\<close>\<close>
  | WarnNoToken
  | ErrorInListener string string
    \<comment> \<open>\<open>console.error(`Error in socket event listener for ${event}:`, error)\<close>\<close>
  | WarnNotConnected string

datatype transport_call =
  IoConnect string
    \<comment> \<open>\<open>io(socketUrl, { auth: { token }, ... })\<close>\<close>
  | SocketDisconnect
    \<comment> \<open>\<open>this.socket.disconnect()\<close>\<close>
  | SocketEmit string event_data

record Socket =
  connected :: bool

text \<open>
  The fields of the class, followed by what its methods do to the outside: the console,
  the calls made on the transport, the delays passed to \<open>setTimeout\<close> (in the order of
  the calls) and the application state the subscribers act on. \<open>listeners\<close> is the
  \<open>Map<string, Set<Function>>\<close>; a set is kept as the list of its members in insertion
  order, which is the order \<open>forEach\<close> visits them in.
\<close>

record 'w SocketManager =
  socket :: "Socket option"
  isConnected :: bool
  reconnectAttempts :: nat
  maxReconnectAttempts :: nat
  reconnectDelay :: nat
  listeners :: "string \<rightharpoonup> 'w callback list"
  console :: "console_msg list"
  transport :: "transport_call list"
  scheduled :: "nat list"
  world :: 'w

text \<open>A fresh instance, as the field initialisers of the class give it.\<close>

definition new_SocketManager :: "'w \<Rightarrow> 'w SocketManager" where
  "new_SocketManager w =
     \<lparr>socket = None, isConnected = False, reconnectAttempts = 0, maxReconnectAttempts = 5,
      reconnectDelay = 1000, listeners = Map.empty, console = [], transport = [],
      scheduled = [], world = w\<rparr>"

text \<open>
  \<open>Array/Set.prototype.forEach\<close>: visits the members in order; an exception of the
  visiting function ends the loop and propagates.
\<close>

fun forEach :: "('a \<Rightarrow> 's \<Rightarrow> 's outcome) \<Rightarrow> 'a list \<Rightarrow> 's \<Rightarrow> 's outcome" where
  "forEach f [] s = Returned s"
| "forEach f (x # xs) s =
     (case f x s of
        Returned s' \<Rightarrow> forEach f xs s'
      | Threw err s' \<Rightarrow> Threw err s')"

text \<open>
  The body of the loop in \<open>emit\<close>:
  \<open>try { callback(data) } catch (error) { console.error(..., error) }\<close>.
\<close>

definition call_listener ::
  "string \<Rightarrow> event_data \<Rightarrow> 'w callback \<Rightarrow> 'w SocketManager \<Rightarrow> 'w SocketManager outcome" where
  "call_listener event data callback s =
     (case cb_run callback data (world s) of
        Returned w \<Rightarrow> Returned (s\<lparr>world := w\<rparr>)
      | Threw err w \<Rightarrow>
          Returned (s\<lparr>console := console s @ [ErrorInListener event err], world := w\<rparr>))"

definition emit :: "string \<Rightarrow> event_data \<Rightarrow> 'w SocketManager \<Rightarrow> 'w SocketManager outcome" where
  "emit event data s =
     (case listeners s event of
        Some eventListeners \<Rightarrow> forEach (call_listener event data) eventListeners s
      | None \<Rightarrow> Returned s)"

text \<open>Sequencing of two calls: the second runs only when the first returned.\<close>

definition and_then :: "'a outcome \<Rightarrow> ('a \<Rightarrow> 'a outcome) \<Rightarrow> 'a outcome" where
  "and_then r f = (case r of Returned s \<Rightarrow> f s | Threw err s \<Rightarrow> Threw err s)"

text \<open>
  \<open>on(event, callback)\<close> and the unsubscribe function it returns.
\<close>

definition on :: "string \<Rightarrow> 'w callback \<Rightarrow> 'w SocketManager \<Rightarrow> 'w SocketManager" where
  "on event callback s =
     (let eventListeners = (case listeners s event of None \<Rightarrow> [] | Some cbs \<Rightarrow> cbs)
      in s\<lparr>listeners := (listeners s)(event \<mapsto>
             (if cb_ref callback \<in> set (map cb_ref eventListeners) then eventListeners
              else eventListeners @ [callback]))\<rparr>)"

definition unsubscribe :: "string \<Rightarrow> 'w callback \<Rightarrow> 'w SocketManager \<Rightarrow> 'w SocketManager" where
  "unsubscribe event callback s =
     (case listeners s event of
        Some eventListeners \<Rightarrow>
          (let remaining = filter (\<lambda>c. cb_ref c \<noteq> cb_ref callback) eventListeners
           in if remaining = [] then s\<lparr>listeners := (listeners s)(event := None)\<rparr>
              else s\<lparr>listeners := (listeners s)(event \<mapsto> remaining)\<rparr>)
      | None \<Rightarrow> s)"

text \<open>
  \<open>connect()\<close>, given the value of \<open>authManager.getToken()\<close>: nothing when the socket is
  connected; a warning when there is no (or an empty) token; a new socket otherwise. The
  handlers that \<open>setupEventListeners\<close> attaches to the socket are the functions
  \<open>socket_on_...\<close> below.
\<close>

definition connect :: "string option \<Rightarrow> 'w SocketManager \<Rightarrow> 'w SocketManager outcome" where
  "connect tok s =
     (if (case socket s of Some sock \<Rightarrow> connected sock | None \<Rightarrow> False) then Returned s
      else (case tok of
              None \<Rightarrow> Returned (s\<lparr>console := console s @ [WarnNoToken]\<rparr>)
            | Some t \<Rightarrow>
                if t = [] then Returned (s\<lparr>console := console s @ [WarnNoToken]\<rparr>)
                else Returned (s\<lparr>socket := Some \<lparr>connected = False\<rparr>,
                                 transport := transport s @ [IoConnect t]\<rparr>)))"

text \<open>
  \<open>handleReconnect()\<close>. The timer it starts is recorded by its delay,
  \<open>this.reconnectDelay * Math.pow(2, this.reconnectAttempts - 1)\<close> after the increment
  (a product of whole numbers, computed on \<open>nat\<close>); when the timer fires,
  \<open>reconnect_timer_fired\<close> runs.
\<close>

definition handleReconnect :: "'w SocketManager \<Rightarrow> 'w SocketManager outcome" where
  "handleReconnect s =
     (if reconnectAttempts s \<ge> maxReconnectAttempts s
      then emit ''maxReconnectAttemptsReached'' EmptyData
             (s\<lparr>console := console s @ [ErrorMaxReconnect]\<rparr>)
      else (let attempts = reconnectAttempts s + 1;
                delay = reconnectDelay s * 2 ^ (attempts - 1)
            in Returned (s\<lparr>reconnectAttempts := attempts,
                            console := console s @ [LogReconnectAttempt delay attempts],
                            scheduled := scheduled s @ [delay]\<rparr>)))"

definition reconnect_timer_fired :: "string option \<Rightarrow> 'w SocketManager \<Rightarrow> 'w SocketManager outcome" where
  "reconnect_timer_fired tok s = (if \<not> isConnected s then connect tok s else Returned s)"

text \<open>The handlers of the transport's own events \<open>connect\<close>, \<open>disconnect\<close> and \<open>connect_error\<close>.\<close>

definition socket_on_connect :: "'w SocketManager \<Rightarrow> 'w SocketManager outcome" where
  "socket_on_connect s =
     emit ''connection'' (ConnectionData True None)
       (s\<lparr>isConnected := True, reconnectAttempts := 0,
          console := console s @ [LogSocketConnected]\<rparr>)"

definition socket_on_disconnect :: "string \<Rightarrow> 'w SocketManager \<Rightarrow> 'w SocketManager outcome" where
  "socket_on_disconnect reason s =
     and_then
       (emit ''connection'' (ConnectionData False (Some reason))
          (s\<lparr>isConnected := False, console := console s @ [LogSocketDisconnected reason]\<rparr>))
       (\<lambda>s'. if reason = ''io server disconnect'' then handleReconnect s' else Returned s')"

definition socket_on_connect_error :: "string \<Rightarrow> 'w SocketManager \<Rightarrow> 'w SocketManager outcome" where
  "socket_on_connect_error msg s =
     and_then
       (emit ''error'' (ErrorData msg)
          (s\<lparr>isConnected := False, console := console s @ [ErrorSocketConnection msg]\<rparr>))
       handleReconnect"

text \<open>\<open>disconnect()\<close>: everything happens under \<open>if (this.socket)\<close>.\<close>

definition disconnect :: "'w SocketManager \<Rightarrow> 'w SocketManager outcome" where
  "disconnect s =
     (case socket s of
        Some sock \<Rightarrow>
          Returned (s\<lparr>socket := None, isConnected := False, listeners := Map.empty,
                      transport := transport s @ [SocketDisconnect]\<rparr>)
      | None \<Rightarrow> Returned s)"

text \<open>
  What a dispatch amounts to: every subscriber of the list is called in turn on the
  state its predecessors left, whether they returned or threw; and the errors thrown on
  the way, in order.
\<close>

fun run_all :: "event_data \<Rightarrow> 'w callback list \<Rightarrow> 'w \<Rightarrow> 'w" where
  "run_all data [] w = w"
| "run_all data (c # cs) w = run_all data cs (state_of (cb_run c data w))"

fun errors_of :: "event_data \<Rightarrow> 'w callback list \<Rightarrow> 'w \<Rightarrow> string list" where
  "errors_of data [] w = []"
| "errors_of data (c # cs) w =
     (case thrown (cb_run c data w) of
        Some err \<Rightarrow> err # errors_of data cs (state_of (cb_run c data w))
      | None \<Rightarrow> errors_of data cs (state_of (cb_run c data w)))"

definition registered :: "'w SocketManager \<Rightarrow> string \<Rightarrow> 'w callback list" where
  "registered s event = (case listeners s event of None \<Rightarrow> [] | Some cbs \<Rightarrow> cbs)"

text \<open>
  Subscribers for the concrete instances. The application state is the list of the
  subscribers that ran, by their tags: \<open>recorder k\<close> notes its tag and returns,
  \<open>faulty k\<close> notes its tag and throws.
\<close>

definition recorder :: "nat \<Rightarrow> nat list callback" where
  "recorder k = \<lparr>cb_ref = k, cb_run = (\<lambda>data w. Returned (w @ [k]))\<rparr>"

definition faulty :: "nat \<Rightarrow> nat list callback" where
  "faulty k = \<lparr>cb_ref = k, cb_run = (\<lambda>data w. Threw ''boom'' (w @ [k]))\<rparr>"

text \<open>Running a list of calls one after the other, each on the state the last one left.\<close>

fun run_calls :: "('s \<Rightarrow> 's outcome) list \<Rightarrow> 's \<Rightarrow> 's outcome" where
  "run_calls [] s = Returned s"
| "run_calls (f # fs) s =
     (case f s of Returned s' \<Rightarrow> run_calls fs s' | Threw err s' \<Rightarrow> Threw err s')"

section \<open>Reconciliation of click updates\<close>

lemma updateUrlClicks_length: "length (updateUrlClicks i n prev) = length prev"
  by (simp add: updateUrlClicks_def)

lemma updateUrlClicks_nth:
  "k < length prev \<Longrightarrow>
   updateUrlClicks i n prev ! k =
     (if id_url (prev ! k) = i then (prev ! k)\<lparr>clicksTotal := n\<rparr> else prev ! k)"
  by (simp add: updateUrlClicks_def)

lemma updateUrlClicks_absent:
  "\<not> list_ex (\<lambda>url. id_url url = i) prev \<Longrightarrow> updateUrlClicks i n prev = prev"
  by (induction prev) (simp_all add: updateUrlClicks_def)

text \<open>The handler, when its guard lets the payload through, is \<open>updateUrlClicks\<close>.\<close>

lemma onClickUpdate_urls:
  "urls (onClickUpdate captured (ClickUpdate i n) st) =
     (if i \<noteq> 0 then updateUrlClicks i n (urls st) else urls st)"
  by (simp add: onClickUpdate_def ClickUpdate_def truthy_num_def)

text \<open>
  The handler tests the payload's id for truthiness, so a click update for the id \<open>0\<close>
  is dropped although a record with that id is in the collection.
\<close>

theorem click_update_for_id_zero_dropped:
  "urls (onClickUpdate [sample_url 0 5] (ClickUpdate 0 9) \<lparr>urls = [sample_url 0 5], toasts = []\<rparr>) =
     [sample_url 0 5] \<and>
   id_url (sample_url 0 5) = 0 \<and>
   clicksTotal (sample_url 0 5) \<noteq> 9"
  by (simp add: onClickUpdate_def ClickUpdate_def truthy_num_def sample_url_def)

text \<open>
  C1 (amended). For every collection and every click update carrying a count and an id
  other than \<open>0\<close>, the handler \<open>onClickUpdate\<close> leaves a collection of the same length
  and order in which a record with that id has the carried count as its counter
  (whatever the old counter was) and every other field as before, and every other record
  is unchanged; when no record has that id the collection is unchanged. A click update
  for the id \<open>0\<close> leaves the collection unchanged.
\<close>

theorem onClickUpdate_sets_count:
  "(i \<noteq> 0 \<longrightarrow>
      length (urls (onClickUpdate captured (ClickUpdate i n) st)) = length (urls st) \<and>
      (\<forall>k < length (urls st).
         (id_url (urls st ! k) = i \<longrightarrow>
            clicksTotal (urls (onClickUpdate captured (ClickUpdate i n) st) ! k) = n \<and>
            urls (onClickUpdate captured (ClickUpdate i n) st) ! k = (urls st ! k)\<lparr>clicksTotal := n\<rparr> \<and>
            id_url (urls (onClickUpdate captured (ClickUpdate i n) st) ! k) = id_url (urls st ! k) \<and>
            longUrl (urls (onClickUpdate captured (ClickUpdate i n) st) ! k) = longUrl (urls st ! k) \<and>
            shortCode (urls (onClickUpdate captured (ClickUpdate i n) st) ! k) = shortCode (urls st ! k) \<and>
            expirationDate (urls (onClickUpdate captured (ClickUpdate i n) st) ! k) =
              expirationDate (urls st ! k) \<and>
            user (urls (onClickUpdate captured (ClickUpdate i n) st) ! k) = user (urls st ! k) \<and>
            createdAt (urls (onClickUpdate captured (ClickUpdate i n) st) ! k) = createdAt (urls st ! k) \<and>
            updatedAt (urls (onClickUpdate captured (ClickUpdate i n) st) ! k) = updatedAt (urls st ! k) \<and>
            isExpired (urls (onClickUpdate captured (ClickUpdate i n) st) ! k) = isExpired (urls st ! k)) \<and>
         (id_url (urls st ! k) \<noteq> i \<longrightarrow>
            urls (onClickUpdate captured (ClickUpdate i n) st) ! k = urls st ! k)) \<and>
      (\<not> list_ex (\<lambda>url. id_url url = i) (urls st) \<longrightarrow>
         urls (onClickUpdate captured (ClickUpdate i n) st) = urls st)) \<and>
   urls (onClickUpdate captured (ClickUpdate 0 n) st) = urls st"
proof
  show "urls (onClickUpdate captured (ClickUpdate 0 n) st) = urls st"
    by (simp add: onClickUpdate_urls)
next
  show "i \<noteq> 0 \<longrightarrow>
      length (urls (onClickUpdate captured (ClickUpdate i n) st)) = length (urls st) \<and>
      (\<forall>k < length (urls st).
         (id_url (urls st ! k) = i \<longrightarrow>
            clicksTotal (urls (onClickUpdate captured (ClickUpdate i n) st) ! k) = n \<and>
            urls (onClickUpdate captured (ClickUpdate i n) st) ! k = (urls st ! k)\<lparr>clicksTotal := n\<rparr> \<and>
            id_url (urls (onClickUpdate captured (ClickUpdate i n) st) ! k) = id_url (urls st ! k) \<and>
            longUrl (urls (onClickUpdate captured (ClickUpdate i n) st) ! k) = longUrl (urls st ! k) \<and>
            shortCode (urls (onClickUpdate captured (ClickUpdate i n) st) ! k) = shortCode (urls st ! k) \<and>
            expirationDate (urls (onClickUpdate captured (ClickUpdate i n) st) ! k) =
              expirationDate (urls st ! k) \<and>
            user (urls (onClickUpdate captured (ClickUpdate i n) st) ! k) = user (urls st ! k) \<and>
            createdAt (urls (onClickUpdate captured (ClickUpdate i n) st) ! k) = createdAt (urls st ! k) \<and>
            updatedAt (urls (onClickUpdate captured (ClickUpdate i n) st) ! k) = updatedAt (urls st ! k) \<and>
            isExpired (urls (onClickUpdate captured (ClickUpdate i n) st) ! k) = isExpired (urls st ! k)) \<and>
         (id_url (urls st ! k) \<noteq> i \<longrightarrow>
            urls (onClickUpdate captured (ClickUpdate i n) st) ! k = urls st ! k)) \<and>
      (\<not> list_ex (\<lambda>url. id_url url = i) (urls st) \<longrightarrow>
         urls (onClickUpdate captured (ClickUpdate i n) st) = urls st)"
  proof
    assume nz: "i \<noteq> 0"
    then have run: "urls (onClickUpdate captured (ClickUpdate i n) st) = updateUrlClicks i n (urls st)"
      by (simp add: onClickUpdate_urls)
    show "length (urls (onClickUpdate captured (ClickUpdate i n) st)) = length (urls st) \<and>
      (\<forall>k < length (urls st).
         (id_url (urls st ! k) = i \<longrightarrow>
            clicksTotal (urls (onClickUpdate captured (ClickUpdate i n) st) ! k) = n \<and>
            urls (onClickUpdate captured (ClickUpdate i n) st) ! k = (urls st ! k)\<lparr>clicksTotal := n\<rparr> \<and>
            id_url (urls (onClickUpdate captured (ClickUpdate i n) st) ! k) = id_url (urls st ! k) \<and>
            longUrl (urls (onClickUpdate captured (ClickUpdate i n) st) ! k) = longUrl (urls st ! k) \<and>
            shortCode (urls (onClickUpdate captured (ClickUpdate i n) st) ! k) = shortCode (urls st ! k) \<and>
            expirationDate (urls (onClickUpdate captured (ClickUpdate i n) st) ! k) =
              expirationDate (urls st ! k) \<and>
            user (urls (onClickUpdate captured (ClickUpdate i n) st) ! k) = user (urls st ! k) \<and>
            createdAt (urls (onClickUpdate captured (ClickUpdate i n) st) ! k) = createdAt (urls st ! k) \<and>
            updatedAt (urls (onClickUpdate captured (ClickUpdate i n) st) ! k) = updatedAt (urls st ! k) \<and>
            isExpired (urls (onClickUpdate captured (ClickUpdate i n) st) ! k) = isExpired (urls st ! k)) \<and>
         (id_url (urls st ! k) \<noteq> i \<longrightarrow>
            urls (onClickUpdate captured (ClickUpdate i n) st) ! k = urls st ! k)) \<and>
      (\<not> list_ex (\<lambda>url. id_url url = i) (urls st) \<longrightarrow>
         urls (onClickUpdate captured (ClickUpdate i n) st) = urls st)"
      unfolding run
      by (simp add: updateUrlClicks_length updateUrlClicks_nth updateUrlClicks_absent)
  qed
qed

text \<open>
  The two scenarios of the specification, through the handler: \<open>[{id:1, clicks:3}]\<close>
  (and a second record) with \<open>ClickUpdate{id:1, newCount:7}\<close> becomes
  \<open>[{id:1, clicks:7}]\<close> (and the second record as it was), and the empty collection with
  \<open>ClickUpdate{id:9, newCount:2}\<close> stays empty.
\<close>

theorem onClickUpdate_sets_count_witness:
  "(1::int) \<noteq> 0 \<and>
   urls (onClickUpdate [sample_url 1 3, sample_url 2 4] (ClickUpdate 1 7)
      \<lparr>urls = [sample_url 1 3, sample_url 2 4], toasts = []\<rparr>) = [sample_url 1 7, sample_url 2 4] \<and>
   urls (onClickUpdate [] (ClickUpdate 9 2) \<lparr>urls = [], toasts = []\<rparr>) = []"
proof -
  let ?prev = "[sample_url 1 3, sample_url 2 4]"
  let ?st = "\<lparr>urls = ?prev, toasts = []\<rparr>"
  let ?res = "urls (onClickUpdate ?prev (ClickUpdate 1 7) ?st)"
  have nz: "(1::int) \<noteq> 0" by simp
  note inst = onClickUpdate_sets_count [of 1 ?prev 7 ?st, THEN conjunct1, rule_format, OF nz]
  have len: "length ?res = Suc (Suc 0)"
    using inst [THEN conjunct1] by simp
  note pointwise = inst [THEN conjunct2, THEN conjunct1, rule_format]
  have k0: "0 < length (urls ?st)" and k1: "Suc 0 < length (urls ?st)"
    by simp_all
  have "id_url (urls ?st ! 0) = 1"
    by (simp add: sample_url_def)
  with pointwise [OF k0, THEN conjunct1, rule_format]
  have "?res ! 0 = (urls ?st ! 0)\<lparr>clicksTotal := 7\<rparr>"
    by blast
  then have r0: "?res ! 0 = sample_url 1 7"
    by (simp add: sample_url_def)
  have "id_url (urls ?st ! Suc 0) \<noteq> 1"
    by (simp add: sample_url_def)
  with pointwise [OF k1, THEN conjunct2, rule_format]
  have "?res ! Suc 0 = urls ?st ! Suc 0"
    by blast
  then have r1: "?res ! Suc 0 = sample_url 2 4"
    by simp
  have first: "?res = [sample_url 1 7, sample_url 2 4]"
    by (rule nth_equalityI) (use len r0 r1 in \<open>auto simp: less_Suc_eq\<close>)
  have nz9: "(9::int) \<noteq> 0" by simp
  have "\<not> list_ex (\<lambda>url. id_url url = 9) (urls \<lparr>urls = [], toasts = []\<rparr>)"
    by simp
  with onClickUpdate_sets_count [of 9 "[]" 2 "\<lparr>urls = [], toasts = []\<rparr>", THEN conjunct1, rule_format, OF nz9]
  have "urls (onClickUpdate [] (ClickUpdate 9 2) \<lparr>urls = [], toasts = []\<rparr>) =
      urls \<lparr>urls = [], toasts = []\<rparr>"
    by blast
  then have second: "urls (onClickUpdate [] (ClickUpdate 9 2) \<lparr>urls = [], toasts = []\<rparr>) = []"
    by simp
  from nz first second show ?thesis by blast
qed

lemma updateUrlClicks_twice:
  "updateUrlClicks i n (updateUrlClicks i n prev) = updateUrlClicks i n prev"
  by (induction prev) (simp_all add: updateUrlClicks_def)

text \<open>
  C3. Reconciliation of a click update is idempotent: applying the same update twice
  gives the collection that applying it once gives, for \<open>updateUrlClicks\<close> and for the
  socket handler \<open>onClickUpdate\<close> with any payload (and whatever collection each of the
  two runs of the handler has captured).
\<close>

theorem clickUpdate_idempotent:
  "updateUrlClicks i n (updateUrlClicks i n prev) = updateUrlClicks i n prev \<and>
   urls (onClickUpdate captured' data (onClickUpdate captured data st)) =
     urls (onClickUpdate captured data st)"
proof
  show "updateUrlClicks i n (updateUrlClicks i n prev) = updateUrlClicks i n prev"
    by (rule updateUrlClicks_twice)
next
  show "urls (onClickUpdate captured' data (onClickUpdate captured data st)) =
     urls (onClickUpdate captured data st)"
  proof (cases "data_shortUrlId data")
    case None
    then show ?thesis by (simp add: onClickUpdate_def)
  next
    case (Some i)
    show ?thesis
    proof (cases "data_newClickCount data")
      case None
      with Some show ?thesis by (simp add: onClickUpdate_def)
    next
      case (Some n)
      with \<open>data_shortUrlId data = Some i\<close> show ?thesis
        by (simp add: onClickUpdate_def updateUrlClicks_twice)
    qed
  qed
qed

section \<open>Created and deleted records\<close>

lemma count_id_zero_iff: "(count_id i xs = 0) = (\<not> list_ex (\<lambda>url. id_url url = i) xs)"
  by (induction xs) (simp_all add: count_id_def)

lemma onUrlCreated_urls:
  "urls (onUrlCreated (RecordCreated r) st) =
     (if list_ex (\<lambda>url. id_url url = id_url r) (urls st) then urls st else r # urls st)"
  by (simp add: onUrlCreated_def RecordCreated_def)



text \<open>
  What the handler of \<open>RecordCreated\<close> guarantees by itself: afterwards the collection
  holds the id of the pushed record at least once, and as often as before when it held
  it already.
\<close>

lemma onUrlCreated_count:
  "count_id (id_url r) (urls (onUrlCreated (RecordCreated r) st)) =
     max 1 (count_id (id_url r) (urls st))"
proof (cases "list_ex (\<lambda>url. id_url url = id_url r) (urls st)")
  case True
  then have "count_id (id_url r) (urls st) \<noteq> 0"
    by (simp add: count_id_zero_iff)
  with True show ?thesis by (simp add: onUrlCreated_urls)
next
  case False
  then have "count_id (id_url r) (urls st) = 0"
    by (simp add: count_id_zero_iff)
  with False show ?thesis by (simp add: onUrlCreated_urls count_id_def)
qed

text \<open>
  C2. The claim asks for exactly one record with the pushed id once the handler of
  \<open>RecordCreated\<close> has run. The handler checks for the id before it inserts
  (\<open>// Check if URL already exists to avoid duplicates\<close>); \<open>createUrl\<close> prepends the
  record of the response without that check. So when the push for a new record is
  delivered before the HTTP response of the \<open>createUrl\<close> call that caused it, the
  handler inserts the record, \<open>createUrl\<close> prepends it a second time, and a further
  delivery of the push leaves both copies: from the empty collection, after the handler
  has run, the collection holds the id twice.
\<close>

theorem onUrlCreated_keeps_duplicates:
  "urls (snd (createUrl (Inr (sample_url 1 0))
      (onUrlCreated (RecordCreated (sample_url 1 0)) \<lparr>urls = [], toasts = []\<rparr>))) =
     [sample_url 1 0, sample_url 1 0] \<and>
   urls (onUrlCreated (RecordCreated (sample_url 1 0))
      (snd (createUrl (Inr (sample_url 1 0))
        (onUrlCreated (RecordCreated (sample_url 1 0)) \<lparr>urls = [], toasts = []\<rparr>)))) =
     [sample_url 1 0, sample_url 1 0] \<and>
   count_id (id_url (sample_url 1 0))
     (urls (onUrlCreated (RecordCreated (sample_url 1 0))
        (snd (createUrl (Inr (sample_url 1 0))
          (onUrlCreated (RecordCreated (sample_url 1 0)) \<lparr>urls = [], toasts = []\<rparr>))))) = 2"
  by (simp add: onUrlCreated_def RecordCreated_def createUrl_def count_id_def sample_url_def)

lemma filter_out_id_absent: "\<not> list_ex (\<lambda>url. id_url url = i) (filter (\<lambda>url. id_url url \<noteq> i) xs)"
  by (induction xs) simp_all

lemma onUrlDeleted_urls:
  "urls (onUrlDeleted (RecordDeleted i) st) =
     (if i \<noteq> 0 then filter (\<lambda>url. id_url url \<noteq> i) (urls st) else urls st)"
  by (simp add: onUrlDeleted_def RecordDeleted_def truthy_num_def)

lemma updateUrlClicks_list_ex:
  "list_ex (\<lambda>url. id_url url = j) (updateUrlClicks i n xs) = list_ex (\<lambda>url. id_url url = j) xs"
  by (induction xs) (simp_all add: updateUrlClicks_def)

text \<open>
  The handlers test the payload's id for truthiness, so a delete (and a click update) for
  the id \<open>0\<close> is skipped: a record with id \<open>0\<close> is still in the collection after the
  delete event and the click update, through the handler and through \<open>updateUrlClicks\<close>.
\<close>

theorem delete_of_id_zero_skipped:
  "urls (onClickUpdate [sample_url 0 5] (ClickUpdate 0 9)
      (onUrlDeleted (RecordDeleted 0) \<lparr>urls = [sample_url 0 5], toasts = []\<rparr>)) = [sample_url 0 5] \<and>
   updateUrlClicks 0 9
      (urls (onUrlDeleted (RecordDeleted 0) \<lparr>urls = [sample_url 0 5], toasts = []\<rparr>)) = [sample_url 0 9] \<and>
   id_url (sample_url 0 5) = 0 \<and> id_url (sample_url 0 9) = 0"
  by (simp add: onClickUpdate_def ClickUpdate_def onUrlDeleted_def RecordDeleted_def
      truthy_num_def updateUrlClicks_def sample_url_def)

text \<open>
  C4 (amended). For every collection, every id other than \<open>0\<close> and every count: after the
  handler of \<open>RecordDeleted\<close> for the id and then a click update for the same id (through
  the handler \<open>onClickUpdate\<close> or through \<open>updateUrlClicks\<close>), no record of the collection
  has the id.
\<close>

theorem no_resurrection_after_delete:
  "i \<noteq> 0 \<Longrightarrow>
   \<not> list_ex (\<lambda>url. id_url url = i)
       (urls (onClickUpdate captured (ClickUpdate i n) (onUrlDeleted (RecordDeleted i) st))) \<and>
   \<not> list_ex (\<lambda>url. id_url url = i)
       (updateUrlClicks i n (urls (onUrlDeleted (RecordDeleted i) st))) \<and>
   count_id i (urls (onClickUpdate captured (ClickUpdate i n) (onUrlDeleted (RecordDeleted i) st))) = 0"
  by (simp add: onClickUpdate_urls onUrlDeleted_urls updateUrlClicks_list_ex
      filter_out_id_absent count_id_zero_iff)

theorem no_resurrection_after_delete_witness:
  "(1::int) \<noteq> 0 \<and>
   urls (onClickUpdate [sample_url 2 4] (ClickUpdate 1 9)
      (onUrlDeleted (RecordDeleted 1) \<lparr>urls = [sample_url 1 5, sample_url 2 4], toasts = []\<rparr>)) =
     [sample_url 2 4] \<and>
   count_id 1 (urls (onClickUpdate [sample_url 2 4] (ClickUpdate 1 9)
      (onUrlDeleted (RecordDeleted 1) \<lparr>urls = [sample_url 1 5, sample_url 2 4], toasts = []\<rparr>))) = 0"
proof -
  have nz: "(1::int) \<noteq> 0" by simp
  have run: "urls (onClickUpdate [sample_url 2 4] (ClickUpdate 1 9)
      (onUrlDeleted (RecordDeleted 1) \<lparr>urls = [sample_url 1 5, sample_url 2 4], toasts = []\<rparr>)) =
     [sample_url 2 4]"
    by (simp add: onClickUpdate_def ClickUpdate_def onUrlDeleted_def RecordDeleted_def
        truthy_num_def updateUrlClicks_def sample_url_def)
  from no_resurrection_after_delete [OF nz, of "[sample_url 2 4]" 9
      "\<lparr>urls = [sample_url 1 5, sample_url 2 4], toasts = []\<rparr>"]
  have "count_id 1 (urls (onClickUpdate [sample_url 2 4] (ClickUpdate 1 9)
      (onUrlDeleted (RecordDeleted 1) \<lparr>urls = [sample_url 1 5, sample_url 2 4], toasts = []\<rparr>))) = 0"
    by blast
  with nz run show ?thesis by blast
qed

section \<open>The click counter over time\<close>






section \<open>Deleting through the gateway\<close>

text \<open>
  C5. When the gateway call of \<open>deleteUrl\<close> rejects, the error is rethrown and the
  collection is the one before the call, so a record with the id that was there is
  still there; the record is filtered out exactly when the gateway call resolves.
\<close>

theorem deleteUrl_only_after_gateway_success:
  "fst (deleteUrl (Inl err) i st) = Inl err \<and>
   urls (snd (deleteUrl (Inl err) i st)) = urls st \<and>
   list_ex (\<lambda>url. id_url url = i) (urls (snd (deleteUrl (Inl err) i st))) =
     list_ex (\<lambda>url. id_url url = i) (urls st) \<and>
   fst (deleteUrl (Inr ()) i st) = Inr () \<and>
   urls (snd (deleteUrl (Inr ()) i st)) = filter (\<lambda>url. id_url url \<noteq> i) (urls st) \<and>
   \<not> list_ex (\<lambda>url. id_url url = i) (urls (snd (deleteUrl (Inr ()) i st)))"
  by (simp add: deleteUrl_def filter_out_id_absent)


section \<open>Token expiry\<close>

lemma payload_segment_sample: "payload_segment ''hdr.pay.sig'' = ''pay''"
  by (simp add: payload_segment_def)

text \<open>
  C8. When the stored token's \<open>exp\<close> claim (seconds) denotes a time at or before the
  current time (milliseconds), \<open>isAuthenticated()\<close> is false, whatever the token text and
  the in-memory flag are. The comparison has no tolerance: with the flag set and a token
  present, \<open>isAuthenticated()\<close> is true exactly while the current time is strictly before
  the expiry.
\<close>

theorem isAuthenticated_false_when_expired:
  "token st = Some t \<Longrightarrow> read_exp (payload_segment t) = Seconds e \<Longrightarrow>
   (e * 1000 \<le> now \<longrightarrow> \<not> isAuthenticated read_exp now st) \<and>
   (isAuthenticated_flag st \<and> t \<noteq> [] \<longrightarrow>
      isAuthenticated read_exp now st = (now < e * 1000))"
  by (auto simp: isAuthenticated_def isTokenExpired_def)

text \<open>
  The scenario of the specification: the token expires at second 1000; one second later
  (and at the very millisecond of expiry) the user is not authenticated, one millisecond
  before expiry the user still is.
\<close>

theorem isAuthenticated_false_when_expired_witness:
  "token sample_auth = Some ''hdr.pay.sig'' \<and>
   sample_read_exp (payload_segment ''hdr.pay.sig'') = Seconds 1000 \<and>
   isAuthenticated_flag sample_auth \<and>
   \<not> isAuthenticated sample_read_exp 1001000 sample_auth \<and>
   \<not> isAuthenticated sample_read_exp 1000000 sample_auth \<and>
   isAuthenticated sample_read_exp 999999 sample_auth"
proof -
  have tok: "token sample_auth = Some ''hdr.pay.sig''"
    by (simp add: sample_auth_def)
  have rd: "sample_read_exp (payload_segment ''hdr.pay.sig'') = Seconds 1000"
    by (simp add: payload_segment_sample sample_read_exp_def)
  have flag: "isAuthenticated_flag sample_auth"
    by (simp add: sample_auth_def)
  from isAuthenticated_false_when_expired [where read_exp = sample_read_exp and now = 1001000, OF tok rd]
  have a: "\<not> isAuthenticated sample_read_exp 1001000 sample_auth" by simp
  from isAuthenticated_false_when_expired [where read_exp = sample_read_exp and now = 1000000, OF tok rd]
  have b: "\<not> isAuthenticated sample_read_exp 1000000 sample_auth" by simp
  from isAuthenticated_false_when_expired [where read_exp = sample_read_exp and now = 999999, OF tok rd] flag
  have c: "isAuthenticated sample_read_exp 999999 sample_auth" by simp
  from tok rd flag a b c show ?thesis by blast
qed


section \<open>Dispatch to subscribers\<close>

lemma forEach_call_listener:
  "forEach (call_listener event data) cbs s =
     Returned (s\<lparr>console := console s @ map (ErrorInListener event) (errors_of data cbs (world s)),
                 world := run_all data cbs (world s)\<rparr>)"
proof (induction cbs arbitrary: s)
  case Nil
  show ?case by simp
next
  case (Cons c cs)
  show ?case
  proof (cases "cb_run c data (world s)")
    case (Returned w)
    then have "call_listener event data c s = Returned (s\<lparr>world := w\<rparr>)"
      by (simp add: call_listener_def)
    with Returned show ?thesis by (simp add: Cons.IH)
  next
    case (Threw err w)
    then have "call_listener event data c s =
        Returned (s\<lparr>console := console s @ [ErrorInListener event err], world := w\<rparr>)"
      by (simp add: call_listener_def)
    with Threw show ?thesis by (simp add: Cons.IH)
  qed
qed

lemma emit_eq:
  "emit event data s =
     Returned (s\<lparr>console := console s @
                   map (ErrorInListener event) (errors_of data (registered s event) (world s)),
                 world := run_all data (registered s event) (world s)\<rparr>)"
  by (simp add: emit_def registered_def forEach_call_listener split: option.splits)

lemma run_all_append: "run_all data (xs @ ys) w = run_all data ys (run_all data xs w)"
  by (induction xs arbitrary: w) simp_all

text \<open>
  C10. \<open>emit\<close> always returns, it never throws to its caller. It calls every subscriber
  registered for the event name, in order, each on the state its predecessors left,
  also after a predecessor threw; each exception is logged to the console and nothing
  else of the manager changes.
\<close>

theorem emit_calls_every_listener:
  "emit event data s =
     Returned (s\<lparr>console := console s @
                   map (ErrorInListener event) (errors_of data (registered s event) (world s)),
                 world := run_all data (registered s event) (world s)\<rparr>) \<and>
   thrown (emit event data s) = None \<and>
   run_all data (before @ c # after) w =
     run_all data after (state_of (cb_run c data (run_all data before w)))"
  by (simp add: emit_eq run_all_append)

text \<open>
  A faulty subscriber in front of a sound one: both run, the exception is logged, and
  \<open>emit\<close> returns.
\<close>

theorem emit_calls_every_listener_witness:
  "world (state_of (emit ''clickUpdate'' EmptyData
      (on ''clickUpdate'' (recorder 8) (on ''clickUpdate'' (faulty 7) (new_SocketManager []))))) = [7, 8] \<and>
   console (state_of (emit ''clickUpdate'' EmptyData
      (on ''clickUpdate'' (recorder 8) (on ''clickUpdate'' (faulty 7) (new_SocketManager []))))) =
     [ErrorInListener ''clickUpdate'' ''boom''] \<and>
   thrown (emit ''clickUpdate'' EmptyData
      (on ''clickUpdate'' (recorder 8) (on ''clickUpdate'' (faulty 7) (new_SocketManager [])))) = None"
proof -
  let ?s = "on ''clickUpdate'' (recorder 8) (on ''clickUpdate'' (faulty 7) (new_SocketManager []))"
  have reg: "registered ?s ''clickUpdate'' = [faulty 7, recorder 8]"
    by (simp add: registered_def on_def new_SocketManager_def faulty_def recorder_def Let_def)
  have w0: "world ?s = []" and c0: "console ?s = []"
    by (simp_all add: on_def new_SocketManager_def Let_def)
  have ra: "run_all EmptyData [faulty 7, recorder 8] [] = [7, 8]"
    by (simp add: faulty_def recorder_def)
  have er: "errors_of EmptyData [faulty 7, recorder 8] [] = [''boom'']"
    by (simp add: faulty_def recorder_def)
  note inst = emit_calls_every_listener [of "''clickUpdate''" EmptyData ?s "[]" "faulty 7" "[]" "[]"]
  have run: "emit ''clickUpdate'' EmptyData ?s =
      Returned (?s\<lparr>console := [] @ map (ErrorInListener ''clickUpdate'') [''boom''],
                  world := [7, 8]\<rparr>)"
    using inst [THEN conjunct1] unfolding reg w0 c0 ra er .
  have a: "world (state_of (emit ''clickUpdate'' EmptyData ?s)) = [7, 8]"
    by (simp add: run)
  have b: "console (state_of (emit ''clickUpdate'' EmptyData ?s)) =
      [ErrorInListener ''clickUpdate'' ''boom'']"
    by (simp add: run)
  have c: "thrown (emit ''clickUpdate'' EmptyData ?s) = None"
    by (rule inst [THEN conjunct2, THEN conjunct1])
  from a b c show ?thesis by blast
qed

section \<open>Reconnection\<close>

lemma registered_after_emit:
  "registered (s\<lparr>console := c, world := w\<rparr>) event = registered s event"
  by (simp add: registered_def)

lemma handleReconnect_at_cap:
  "maxReconnectAttempts s \<le> reconnectAttempts s \<Longrightarrow>
   handleReconnect s =
     Returned (s\<lparr>console := console s @ [ErrorMaxReconnect] @
                   map (ErrorInListener ''maxReconnectAttemptsReached'')
                     (errors_of EmptyData (registered s ''maxReconnectAttemptsReached'') (world s)),
                 world := run_all EmptyData (registered s ''maxReconnectAttemptsReached'') (world s)\<rparr>)"
  by (simp add: handleReconnect_def emit_eq registered_def)

lemma socket_on_connect_error_at_cap:
  "maxReconnectAttempts s \<le> reconnectAttempts s \<Longrightarrow>
   \<exists>c. socket_on_connect_error msg s =
     Returned (s\<lparr>isConnected := False, console := c,
                 world := run_all EmptyData (registered s ''maxReconnectAttemptsReached'')
                            (run_all (ErrorData msg) (registered s ''error'') (world s))\<rparr>)"
  by (simp add: socket_on_connect_error_def and_then_def emit_eq handleReconnect_at_cap
      registered_def) (rule exI, rule refl)

lemma socket_on_disconnect_at_cap:
  "maxReconnectAttempts s \<le> reconnectAttempts s \<Longrightarrow>
   \<exists>c. socket_on_disconnect ''io server disconnect'' s =
     Returned (s\<lparr>isConnected := False, console := c,
                 world := run_all EmptyData (registered s ''maxReconnectAttemptsReached'')
                            (run_all (ConnectionData False (Some ''io server disconnect''))
                               (registered s ''connection'') (world s))\<rparr>)"
  by (simp add: socket_on_disconnect_def and_then_def emit_eq handleReconnect_at_cap
      registered_def) (rule exI, rule refl)

text \<open>
  A fresh manager with one subscriber for the terminal event, and failed connection
  attempts in a row. The first five schedule the retries; the sixth and the seventh
  each deliver the terminal event, so the subscriber sees it twice. And after the
  terminal event a timer that was scheduled earlier still opens a connection when it
  fires, with no \<open>connect()\<close> from outside: the transport gets a second \<open>io(...)\<close>.
\<close>

theorem terminal_event_emitted_twice:
  "world (state_of (run_calls
      [socket_on_connect_error ''timeout'', socket_on_connect_error ''timeout'',
       socket_on_connect_error ''timeout'', socket_on_connect_error ''timeout'',
       socket_on_connect_error ''timeout'', socket_on_connect_error ''timeout'',
       socket_on_connect_error ''timeout'']
      (on ''maxReconnectAttemptsReached'' (recorder 1) (new_SocketManager [])))) = [1, 1] \<and>
   scheduled (state_of (run_calls
      [socket_on_connect_error ''timeout'', socket_on_connect_error ''timeout'',
       socket_on_connect_error ''timeout'', socket_on_connect_error ''timeout'',
       socket_on_connect_error ''timeout'', socket_on_connect_error ''timeout'',
       socket_on_connect_error ''timeout'']
      (on ''maxReconnectAttemptsReached'' (recorder 1) (new_SocketManager [])))) =
     [1000, 2000, 4000, 8000, 16000] \<and>
   transport (state_of (run_calls
      [connect (Some ''jwt''),
       socket_on_connect_error ''timeout'', socket_on_connect_error ''timeout'',
       socket_on_connect_error ''timeout'', socket_on_connect_error ''timeout'',
       socket_on_connect_error ''timeout'', socket_on_connect_error ''timeout'',
       reconnect_timer_fired (Some ''jwt'')]
      (on ''maxReconnectAttemptsReached'' (recorder 1) (new_SocketManager [])))) =
     [IoConnect ''jwt'', IoConnect ''jwt'']"
  by (simp add: on_def new_SocketManager_def socket_on_connect_error_def and_then_def
      emit_def handleReconnect_def recorder_def call_listener_def Let_def connect_def
      reconnect_timer_fired_def)

text \<open>
  C6 (amended). While the number of attempts is below the configured maximum,
  \<open>handleReconnect\<close> counts the attempt and schedules it after the base delay times
  \<open>2^(k - 1)\<close>, where \<open>k\<close> is the number of the attempt. Once the number of attempts has
  reached the maximum, each reconnect trigger (a call of \<open>handleReconnect\<close>, through a
  \<open>connect_error\<close> or a disconnect by the server) emits \<open>maxReconnectAttemptsReached\<close>
  once to the subscribers of that event, schedules nothing, makes no call on the
  transport and leaves the counter where it is. A timer that was scheduled earlier is
  not cancelled: when it fires while the manager is not connected it opens a
  connection, whatever the counter is. \<open>connect()\<close> does not touch the counter; the
  transport's \<open>connect\<close> event sets it back to 0.
\<close>

theorem handleReconnect_backoff:
  "(reconnectAttempts s < maxReconnectAttempts s \<longrightarrow>
      thrown (handleReconnect s) = None \<and>
      reconnectAttempts (state_of (handleReconnect s)) = reconnectAttempts s + 1 \<and>
      scheduled (state_of (handleReconnect s)) =
        scheduled s @
          [reconnectDelay s * 2 ^ (reconnectAttempts (state_of (handleReconnect s)) - 1)] \<and>
      world (state_of (handleReconnect s)) = world s) \<and>
   (maxReconnectAttempts s \<le> reconnectAttempts s \<longrightarrow>
      handleReconnect s =
        emit ''maxReconnectAttemptsReached'' EmptyData
          (s\<lparr>console := console s @ [ErrorMaxReconnect]\<rparr>) \<and>
      thrown (handleReconnect s) = None \<and>
      world (state_of (handleReconnect s)) =
        run_all EmptyData (registered s ''maxReconnectAttemptsReached'') (world s) \<and>
      scheduled (state_of (handleReconnect s)) = scheduled s \<and>
      reconnectAttempts (state_of (handleReconnect s)) = reconnectAttempts s) \<and>
   reconnectAttempts (state_of (connect tok s)) = reconnectAttempts s \<and>
   reconnectAttempts (state_of (socket_on_connect s)) = 0 \<and>
   (maxReconnectAttempts s \<le> reconnectAttempts s \<longrightarrow>
      transport (state_of (handleReconnect s)) = transport s \<and>
      thrown (socket_on_connect_error msg s) = None \<and>
      world (state_of (socket_on_connect_error msg s)) =
        run_all EmptyData (registered s ''maxReconnectAttemptsReached'')
          (run_all (ErrorData msg) (registered s ''error'') (world s)) \<and>
      scheduled (state_of (socket_on_connect_error msg s)) = scheduled s \<and>
      transport (state_of (socket_on_connect_error msg s)) = transport s \<and>
      reconnectAttempts (state_of (socket_on_connect_error msg s)) = reconnectAttempts s \<and>
      thrown (socket_on_disconnect ''io server disconnect'' s) = None \<and>
      world (state_of (socket_on_disconnect ''io server disconnect'' s)) =
        run_all EmptyData (registered s ''maxReconnectAttemptsReached'')
          (run_all (ConnectionData False (Some ''io server disconnect''))
             (registered s ''connection'') (world s)) \<and>
      scheduled (state_of (socket_on_disconnect ''io server disconnect'' s)) = scheduled s \<and>
      transport (state_of (socket_on_disconnect ''io server disconnect'' s)) = transport s \<and>
      reconnectAttempts (state_of (socket_on_disconnect ''io server disconnect'' s)) =
        reconnectAttempts s) \<and>
   (\<not> isConnected s \<and> (socket s = None \<or> socket s = Some \<lparr>connected = False\<rparr>) \<and> t \<noteq> [] \<longrightarrow>
      transport (state_of (reconnect_timer_fired (Some t) s)) = transport s @ [IoConnect t])"
proof (intro conjI)
  show "reconnectAttempts (state_of (connect tok s)) = reconnectAttempts s"
    by (simp add: connect_def split: option.splits)
next
  show "reconnectAttempts (state_of (socket_on_connect s)) = 0"
    by (simp add: socket_on_connect_def emit_eq)
next
  show "reconnectAttempts s < maxReconnectAttempts s \<longrightarrow>
      thrown (handleReconnect s) = None \<and>
      reconnectAttempts (state_of (handleReconnect s)) = reconnectAttempts s + 1 \<and>
      scheduled (state_of (handleReconnect s)) =
        scheduled s @
          [reconnectDelay s * 2 ^ (reconnectAttempts (state_of (handleReconnect s)) - 1)] \<and>
      world (state_of (handleReconnect s)) = world s"
    by (simp add: handleReconnect_def Let_def)
next
  show "maxReconnectAttempts s \<le> reconnectAttempts s \<longrightarrow>
      handleReconnect s =
        emit ''maxReconnectAttemptsReached'' EmptyData
          (s\<lparr>console := console s @ [ErrorMaxReconnect]\<rparr>) \<and>
      thrown (handleReconnect s) = None \<and>
      world (state_of (handleReconnect s)) =
        run_all EmptyData (registered s ''maxReconnectAttemptsReached'') (world s) \<and>
      scheduled (state_of (handleReconnect s)) = scheduled s \<and>
      reconnectAttempts (state_of (handleReconnect s)) = reconnectAttempts s"
    by (simp add: handleReconnect_def emit_eq registered_def)
next
  show "maxReconnectAttempts s \<le> reconnectAttempts s \<longrightarrow>
      transport (state_of (handleReconnect s)) = transport s \<and>
      thrown (socket_on_connect_error msg s) = None \<and>
      world (state_of (socket_on_connect_error msg s)) =
        run_all EmptyData (registered s ''maxReconnectAttemptsReached'')
          (run_all (ErrorData msg) (registered s ''error'') (world s)) \<and>
      scheduled (state_of (socket_on_connect_error msg s)) = scheduled s \<and>
      transport (state_of (socket_on_connect_error msg s)) = transport s \<and>
      reconnectAttempts (state_of (socket_on_connect_error msg s)) = reconnectAttempts s \<and>
      thrown (socket_on_disconnect ''io server disconnect'' s) = None \<and>
      world (state_of (socket_on_disconnect ''io server disconnect'' s)) =
        run_all EmptyData (registered s ''maxReconnectAttemptsReached'')
          (run_all (ConnectionData False (Some ''io server disconnect''))
             (registered s ''connection'') (world s)) \<and>
      scheduled (state_of (socket_on_disconnect ''io server disconnect'' s)) = scheduled s \<and>
      transport (state_of (socket_on_disconnect ''io server disconnect'' s)) = transport s \<and>
      reconnectAttempts (state_of (socket_on_disconnect ''io server disconnect'' s)) =
        reconnectAttempts s"
  proof
    assume cap: "maxReconnectAttempts s \<le> reconnectAttempts s"
    from socket_on_connect_error_at_cap [OF cap, of msg]
    obtain c where ce: "socket_on_connect_error msg s =
        Returned (s\<lparr>isConnected := False, console := c,
                    world := run_all EmptyData (registered s ''maxReconnectAttemptsReached'')
                               (run_all (ErrorData msg) (registered s ''error'') (world s))\<rparr>)"
      by blast
    from socket_on_disconnect_at_cap [OF cap]
    obtain c' where dc: "socket_on_disconnect ''io server disconnect'' s =
        Returned (s\<lparr>isConnected := False, console := c',
                    world := run_all EmptyData (registered s ''maxReconnectAttemptsReached'')
                               (run_all (ConnectionData False (Some ''io server disconnect''))
                                  (registered s ''connection'') (world s))\<rparr>)"
      by blast
    have hr: "transport (state_of (handleReconnect s)) = transport s"
      by (simp add: handleReconnect_at_cap [OF cap])
    show "transport (state_of (handleReconnect s)) = transport s \<and>
      thrown (socket_on_connect_error msg s) = None \<and>
      world (state_of (socket_on_connect_error msg s)) =
        run_all EmptyData (registered s ''maxReconnectAttemptsReached'')
          (run_all (ErrorData msg) (registered s ''error'') (world s)) \<and>
      scheduled (state_of (socket_on_connect_error msg s)) = scheduled s \<and>
      transport (state_of (socket_on_connect_error msg s)) = transport s \<and>
      reconnectAttempts (state_of (socket_on_connect_error msg s)) = reconnectAttempts s \<and>
      thrown (socket_on_disconnect ''io server disconnect'' s) = None \<and>
      world (state_of (socket_on_disconnect ''io server disconnect'' s)) =
        run_all EmptyData (registered s ''maxReconnectAttemptsReached'')
          (run_all (ConnectionData False (Some ''io server disconnect''))
             (registered s ''connection'') (world s)) \<and>
      scheduled (state_of (socket_on_disconnect ''io server disconnect'' s)) = scheduled s \<and>
      transport (state_of (socket_on_disconnect ''io server disconnect'' s)) = transport s \<and>
      reconnectAttempts (state_of (socket_on_disconnect ''io server disconnect'' s)) =
        reconnectAttempts s"
      unfolding ce dc using hr by simp
  qed
next
  show "\<not> isConnected s \<and> (socket s = None \<or> socket s = Some \<lparr>connected = False\<rparr>) \<and> t \<noteq> [] \<longrightarrow>
      transport (state_of (reconnect_timer_fired (Some t) s)) = transport s @ [IoConnect t]"
  proof (intro impI, elim conjE disjE)
    assume "\<not> isConnected s" "t \<noteq> []" "socket s = None"
    then show "transport (state_of (reconnect_timer_fired (Some t) s)) = transport s @ [IoConnect t]"
      by (simp add: reconnect_timer_fired_def connect_def)
  next
    assume "\<not> isConnected s" "t \<noteq> []" "socket s = Some \<lparr>connected = False\<rparr>"
    then show "transport (state_of (reconnect_timer_fired (Some t) s)) = transport s @ [IoConnect t]"
      by (simp add: reconnect_timer_fired_def connect_def)
  qed
qed

text \<open>
  On a manager with the defaults (base 1000 ms, at most 5 attempts) that has made two
  attempts, the third is scheduled after 4000 ms; at five attempts nothing is scheduled,
  the subscriber of the terminal event is called once by a \<open>connect_error\<close>, and a
  timer that fires opens a connection.
\<close>

theorem handleReconnect_backoff_witness:
  "scheduled (state_of (handleReconnect ((new_SocketManager [])\<lparr>reconnectAttempts := 2\<rparr>))) = [4000] \<and>
   reconnectAttempts (state_of (handleReconnect ((new_SocketManager [])\<lparr>reconnectAttempts := 2\<rparr>))) = 3 \<and>
   world (state_of (handleReconnect
      ((on ''maxReconnectAttemptsReached'' (recorder 7) (new_SocketManager []))\<lparr>reconnectAttempts := 5\<rparr>))) = [7] \<and>
   scheduled (state_of (handleReconnect
      ((on ''maxReconnectAttemptsReached'' (recorder 7) (new_SocketManager []))\<lparr>reconnectAttempts := 5\<rparr>))) = [] \<and>
   world (state_of (socket_on_connect_error ''timeout''
      ((on ''maxReconnectAttemptsReached'' (recorder 7) (new_SocketManager []))\<lparr>reconnectAttempts := 5\<rparr>))) = [7] \<and>
   transport (state_of (reconnect_timer_fired (Some ''jwt'')
      ((on ''maxReconnectAttemptsReached'' (recorder 7) (new_SocketManager []))\<lparr>reconnectAttempts := 5\<rparr>))) =
     [IoConnect ''jwt'']"
proof -
  let ?s2 = "(new_SocketManager [])\<lparr>reconnectAttempts := 2\<rparr>"
  let ?s5 = "(on ''maxReconnectAttemptsReached'' (recorder 7) (new_SocketManager []))\<lparr>reconnectAttempts := 5\<rparr>"
  have below: "reconnectAttempts ?s2 < maxReconnectAttempts ?s2"
    by (simp add: new_SocketManager_def)
  have f2: "reconnectAttempts ?s2 + 1 = 3" "reconnectDelay ?s2 = 1000" "scheduled ?s2 = []"
    by (simp_all add: new_SocketManager_def)
  note lo = handleReconnect_backoff [of ?s2, THEN conjunct1, rule_format, OF below]
  have a: "reconnectAttempts (state_of (handleReconnect ?s2)) = 3"
    using lo [THEN conjunct2, THEN conjunct1] unfolding f2 .
  have "scheduled (state_of (handleReconnect ?s2)) = [] @ [1000 * 2 ^ (3 - 1)]"
    using lo [THEN conjunct2, THEN conjunct2, THEN conjunct1] unfolding a f2 .
  then have b: "scheduled (state_of (handleReconnect ?s2)) = [4000]"
    by simp
  have atcap: "maxReconnectAttempts ?s5 \<le> reconnectAttempts ?s5"
    by (simp add: on_def new_SocketManager_def Let_def)
  have f5: "registered ?s5 ''maxReconnectAttemptsReached'' = [recorder 7]" "world ?s5 = []"
    "scheduled ?s5 = []" "registered ?s5 ''error'' = []" "transport ?s5 = []"
    by (simp_all add: registered_def on_def new_SocketManager_def Let_def)
  note hi = handleReconnect_backoff [of ?s5, THEN conjunct2, THEN conjunct1, rule_format, OF atcap]
  have "world (state_of (handleReconnect ?s5)) = run_all EmptyData [recorder 7] []"
    using hi [THEN conjunct2, THEN conjunct2, THEN conjunct1] unfolding f5 .
  then have c: "world (state_of (handleReconnect ?s5)) = [7]"
    by (simp add: recorder_def)
  have d: "scheduled (state_of (handleReconnect ?s5)) = []"
    using hi [THEN conjunct2, THEN conjunct2, THEN conjunct2, THEN conjunct1] unfolding f5 .
  note trig = handleReconnect_backoff [where s = ?s5 and msg = "''timeout''",
      THEN conjunct2, THEN conjunct2, THEN conjunct2, THEN conjunct2, THEN conjunct1,
      rule_format, OF atcap]
  have "world (state_of (socket_on_connect_error ''timeout'' ?s5)) =
      run_all EmptyData [recorder 7] (run_all (ErrorData ''timeout'') [] [])"
    using trig [THEN conjunct2, THEN conjunct2, THEN conjunct1] unfolding f5 .
  then have e: "world (state_of (socket_on_connect_error ''timeout'' ?s5)) = [7]"
    by (simp add: recorder_def)
  have pre: "\<not> isConnected ?s5 \<and> (socket ?s5 = None \<or> socket ?s5 = Some \<lparr>connected = False\<rparr>) \<and>
      ''jwt'' \<noteq> []"
    by (simp add: on_def new_SocketManager_def Let_def)
  note timer = handleReconnect_backoff [where s = ?s5 and t = "''jwt''",
      THEN conjunct2, THEN conjunct2, THEN conjunct2, THEN conjunct2, THEN conjunct2,
      rule_format, OF pre]
  have "transport (state_of (reconnect_timer_fired (Some ''jwt'') ?s5)) = [] @ [IoConnect ''jwt'']"
    using timer unfolding f5 .
  then have f: "transport (state_of (reconnect_timer_fired (Some ''jwt'') ?s5)) = [IoConnect ''jwt'']"
    by simp
  from a b c d e f show ?thesis by blast
qed

section \<open>Disconnecting\<close>

text \<open>
  After a connect, three failed attempts and a \<open>disconnect()\<close>, the attempt counter is
  still 3; a fresh manager has it at 0.
\<close>

theorem disconnect_keeps_attempt_counter:
  "reconnectAttempts (state_of (run_calls
      [connect (Some ''jwt''), socket_on_connect_error ''timeout'',
       socket_on_connect_error ''timeout'', socket_on_connect_error ''timeout'', disconnect]
      (new_SocketManager ()))) = 3 \<and>
   reconnectAttempts (new_SocketManager ()) = 0"
  by (simp add: new_SocketManager_def connect_def socket_on_connect_error_def and_then_def
      emit_def handleReconnect_def disconnect_def Let_def)

text \<open>
  C7 (amended). \<open>disconnect()\<close> never throws. When the manager holds a socket, it
  disconnects it, forgets it, marks the manager as not connected and clears all
  registered listeners; when it holds none, it changes nothing (the listeners stay
  registered). In both cases the reconnect attempt counter keeps its value.
\<close>

theorem disconnect_effect:
  "(socket s = Some sock \<longrightarrow>
      disconnect s =
        Returned (s\<lparr>socket := None, isConnected := False, listeners := Map.empty,
                    transport := transport s @ [SocketDisconnect]\<rparr>)) \<and>
   (socket s = None \<longrightarrow> disconnect s = Returned s) \<and>
   thrown (disconnect s) = None \<and>
   reconnectAttempts (state_of (disconnect s)) = reconnectAttempts s"
  by (simp add: disconnect_def split: option.splits)

theorem disconnect_effect_witness:
  "listeners (state_of (disconnect
      ((on ''clickUpdate'' (recorder 1) (new_SocketManager []))\<lparr>socket := Some \<lparr>connected = True\<rparr>\<rparr>))) = Map.empty \<and>
   socket (state_of (disconnect
      ((on ''clickUpdate'' (recorder 1) (new_SocketManager []))\<lparr>socket := Some \<lparr>connected = True\<rparr>\<rparr>))) = None \<and>
   disconnect (on ''clickUpdate'' (recorder 1) (new_SocketManager [])) =
     Returned (on ''clickUpdate'' (recorder 1) (new_SocketManager []))"
proof -
  let ?s = "(on ''clickUpdate'' (recorder 1) (new_SocketManager []))\<lparr>socket := Some \<lparr>connected = True\<rparr>\<rparr>"
  let ?t = "on ''clickUpdate'' (recorder 1) (new_SocketManager [])"
  have has: "socket ?s = Some \<lparr>connected = True\<rparr>"
    by simp
  from disconnect_effect [of ?s "\<lparr>connected = True\<rparr>"] has
  have "disconnect ?s =
        Returned (?s\<lparr>socket := None, isConnected := False, listeners := Map.empty,
                    transport := transport ?s @ [SocketDisconnect]\<rparr>)"
    by blast
  then have a: "listeners (state_of (disconnect ?s)) = Map.empty"
    and b: "socket (state_of (disconnect ?s)) = None"
    by simp_all
  have none: "socket ?t = None"
    by (simp add: on_def new_SocketManager_def Let_def)
  from disconnect_effect [of ?t "\<lparr>connected = True\<rparr>"] none
  have c: "disconnect ?t = Returned ?t"
    by blast
  from a b c show ?thesis by blast
qed

end
